theory Spec2Isabelle
  imports Main "HOL-Library.Word"
begin

section \<open>Data model\<close>

text \<open>
  The migration declares the enum \<open>Role\<close> with the labels \<open>'admin'\<close> and \<open>'user'\<close>, the
  table \<open>profile\<close> (primary key \<open>id\<close>, a \<open>role\<close> that defaults to \<open>'user'\<close>) and the table
  \<open>note\<close> (primary key \<open>id\<close>, \<open>text\<close>, and \<open>userId\<close> referencing \<open>profile(id)\<close> with
  \<open>ON DELETE CASCADE\<close>). A UUID is a 128-bit value. A table with a primary key is a map
  from the key to the remaining columns.
\<close>

type_synonym uuid = "128 word"

datatype Role = Role_admin | Role_user

text \<open>The label of an enum value, which is what the ORM client hands to the page.\<close>

fun Role_label :: "Role \<Rightarrow> string" where
  "Role_label Role_admin = ''admin''"
| "Role_label Role_user = ''user''"

record note_row =
  text_note :: string
  userId :: uuid

text \<open>
  The provider's table \<open>auth.users\<close> is not declared in this repository; the SQL of
  \<open>seedTriggers.ts\<close> uses only its column \<open>id\<close>, which is its primary key. It is the
  set of the ids of its rows.
\<close>

record db =
  auth_users :: "uuid set"
  public_profile :: "uuid \<rightharpoonup> Role"
  public_note :: "uuid \<rightharpoonup> note_row"

definition empty_db :: db where
  "empty_db = \<lparr>auth_users = {}, public_profile = Map.empty, public_note = Map.empty\<rparr>"

datatype db_error = Unique_violation string

section \<open>The trigger functions of seedTriggers.ts\<close>

text \<open>
  \<open>insert into public.profile (id) values (new.id)\<close>: only the id is given, so the role
  takes the default of the migration. The insert violates \<open>profile_pkey\<close> when a row with
  that id exists.
\<close>

definition insert_public_profile :: "uuid \<Rightarrow> db \<Rightarrow> db_error + db" where
  "insert_public_profile i d =
     (if public_profile d i \<noteq> None then Inl (Unique_violation ''profile_pkey'')
      else Inr (d\<lparr>public_profile := (public_profile d)(i \<mapsto> Role_user)\<rparr>))"

text \<open>\<open>delete from auth.users where id = old.id\<close>. No trigger of this repository listens
  to deletions on \<open>auth.users\<close>, and no foreign key of the migration references it.\<close>

definition delete_auth_users :: "uuid \<Rightarrow> db \<Rightarrow> db" where
  "delete_auth_users i d = d\<lparr>auth_users := auth_users d - {i}\<rparr>"

text \<open>The two functions, applied to the id of the row \<open>new\<close> and of the row \<open>old\<close>.\<close>

definition handle_new_user :: "uuid \<Rightarrow> db \<Rightarrow> db_error + db" where
  "handle_new_user new_id d = insert_public_profile new_id d"

definition handle_user_delete :: "uuid \<Rightarrow> db \<Rightarrow> db" where
  "handle_user_delete old_id d = delete_auth_users old_id d"

section \<open>Statements on a database with the two triggers installed\<close>

text \<open>
  Inserting a row into \<open>auth.users\<close> (what a sign-up does): the insert fails on an id that
  is present; otherwise the trigger \<open>on_auth_user_created\<close> runs \<open>handle_new_user\<close> after
  the insert, and an error of the trigger function aborts the statement. \<open>Inl\<close> leaves the
  database as it was.
\<close>

definition insert_auth_users :: "uuid \<Rightarrow> db \<Rightarrow> db_error + db" where
  "insert_auth_users i d =
     (if i \<in> auth_users d then Inl (Unique_violation ''users_pkey'')
      else handle_new_user i (d\<lparr>auth_users := insert i (auth_users d)\<rparr>))"

text \<open>The rows of \<open>note\<close> that \<open>note_userId_fkey\<close> removes with the profile \<open>i\<close>.\<close>

definition cascade_note :: "uuid \<Rightarrow> (uuid \<rightharpoonup> note_row) \<Rightarrow> (uuid \<rightharpoonup> note_row)" where
  "cascade_note i notes =
     (\<lambda>n. case notes n of None \<Rightarrow> None
          | Some r \<Rightarrow> if userId r = i then None else Some r)"

text \<open>
  Deleting the profile row with id \<open>i\<close>: when there is no such row nothing is deleted and
  no row-level trigger fires; otherwise the row goes, the foreign key cascades to the
  notes, and the trigger \<open>on_profile_user_deleted\<close> runs \<open>handle_user_delete\<close> for the
  deleted row.
\<close>

definition delete_public_profile :: "uuid \<Rightarrow> db \<Rightarrow> db" where
  "delete_public_profile i d =
     (case public_profile d i of
        None \<Rightarrow> d
      | Some _ \<Rightarrow>
          handle_user_delete i
            (d\<lparr>public_profile := (public_profile d)(i := None),
               public_note := cascade_note i (public_note d)\<rparr>))"

text \<open>Histories of user-insert and profile-delete steps; a failed statement changes
  nothing.\<close>

datatype db_op = User_insert uuid | Profile_delete uuid

fun step :: "db \<Rightarrow> db_op \<Rightarrow> db" where
  "step d (User_insert i) = (case insert_auth_users i d of Inl _ \<Rightarrow> d | Inr d' \<Rightarrow> d')"
| "step d (Profile_delete i) = delete_public_profile i d"

definition run :: "db_op list \<Rightarrow> db \<Rightarrow> db" where
  "run ops d = foldl step d ops"

section \<open>The seeding script\<close>

text \<open>
  The catalog holds the functions by name and the triggers by table and name. The body of
  a function is the statement between \<open>begin\<close> and \<open>end\<close>.
\<close>

datatype relation = Rel_auth_users | Rel_public_profile

datatype trigger_event = After_insert | After_delete

datatype statement = Insert_public_profile_new_id | Delete_auth_users_old_id

record function_def =
  body :: statement
  security_definer :: bool

record trigger_def =
  event :: trigger_event
  for_each_row :: bool
  procedure :: string

record catalog =
  pg_functions :: "string \<rightharpoonup> function_def"
  pg_triggers :: "(relation \<times> string) \<rightharpoonup> trigger_def"

definition empty_catalog :: catalog where
  "empty_catalog = \<lparr>pg_functions = Map.empty, pg_triggers = Map.empty\<rparr>"

datatype seed_error = No_db_url | Undefined_function string

definition create_or_replace_function ::
    "string \<Rightarrow> function_def \<Rightarrow> catalog \<Rightarrow> seed_error + catalog" where
  "create_or_replace_function name f c = Inr (c\<lparr>pg_functions := (pg_functions c)(name \<mapsto> f)\<rparr>)"

text \<open>Creating a trigger needs the procedure it executes to exist.\<close>

definition create_or_replace_trigger ::
    "string \<Rightarrow> relation \<Rightarrow> trigger_def \<Rightarrow> catalog \<Rightarrow> seed_error + catalog" where
  "create_or_replace_trigger name rel t c =
     (if pg_functions c (procedure t) = None then Inl (Undefined_function (procedure t))
      else Inr (c\<lparr>pg_triggers := (pg_triggers c)((rel, name) \<mapsto> t)\<rparr>))"

definition main :: "catalog \<Rightarrow> seed_error + catalog" where
  "main c0 =
     (case create_or_replace_function ''public.handle_new_user''
             \<lparr>body = Insert_public_profile_new_id, security_definer = True\<rparr> c0 of
        Inl e \<Rightarrow> Inl e
      | Inr c1 \<Rightarrow>
     (case create_or_replace_trigger ''on_auth_user_created'' Rel_auth_users
             \<lparr>event = After_insert, for_each_row = True,
              procedure = ''public.handle_new_user''\<rparr> c1 of
        Inl e \<Rightarrow> Inl e
      | Inr c2 \<Rightarrow>
     (case create_or_replace_function ''public.handle_user_delete''
             \<lparr>body = Delete_auth_users_old_id, security_definer = True\<rparr> c2 of
        Inl e \<Rightarrow> Inl e
      | Inr c3 \<Rightarrow>
        create_or_replace_trigger ''on_profile_user_deleted'' Rel_public_profile
             \<lparr>event = After_delete, for_each_row = True,
              procedure = ''public.handle_user_delete''\<rparr> c3)))"

text \<open>The script as a whole: it throws before connecting when \<open>DATABASE_URL\<close> is unset or
  empty.\<close>

definition seedTriggers :: "string option \<Rightarrow> catalog \<Rightarrow> seed_error + catalog" where
  "seedTriggers dbUrl c =
     (if dbUrl = None \<or> dbUrl = Some '''' then Inl No_db_url else main c)"

section \<open>Pages\<close>

record User =
  id_User :: uuid

record Session =
  user :: "User option"

record Profile =
  id_Profile :: uuid
  role :: Role

datatype query = Profile_findUnique uuid

datatype page = Redirect string | Admin_page Profile | Login_page

text \<open>\<open>data.session?.user\<close>: absent when the session is null or carries no user.\<close>

definition session_user :: "Session option \<Rightarrow> User option" where
  "session_user session = (case session of None \<Rightarrow> None | Some s \<Rightarrow> user s)"

text \<open>\<open>prisma.profile.findUnique({ where: { id } })\<close>: the row with that key, or null.\<close>

definition findUnique :: "db \<Rightarrow> uuid \<Rightarrow> Profile option" where
  "findUnique d i =
     (case public_profile d i of None \<Rightarrow> None
      | Some r \<Rightarrow> Some \<lparr>id_Profile = i, role = r\<rparr>)"

text \<open>
  The admin page. \<open>redirect\<close> does not return, so nothing after it runs. The result is the
  outcome together with the queries sent to the database, in order.
  \<open>profile?.role !== "admin"\<close> is true for a null profile.
\<close>

definition Home :: "Session option \<Rightarrow> db \<Rightarrow> page \<times> query list" where
  "Home session d =
     (case session_user session of
        None \<Rightarrow> (Redirect ''/login'', [])
      | Some u \<Rightarrow>
          (case findUnique d (id_User u) of
             None \<Rightarrow> (Redirect ''/'', [Profile_findUnique (id_User u)])
           | Some profile \<Rightarrow>
               if Role_label (role profile) \<noteq> ''admin''
               then (Redirect ''/'', [Profile_findUnique (id_User u)])
               else (Admin_page profile, [Profile_findUnique (id_User u)])))"

definition LoginPage :: "Session option \<Rightarrow> page" where
  "LoginPage session =
     (case session_user session of Some _ \<Rightarrow> Redirect ''/'' | None \<Rightarrow> Login_page)"

section \<open>The code exchange route\<close>

text \<open>
  The handler reads the parsed request URL: its origin and its query parameters in order.
  \<open>searchParams.get\<close> gives the value of the first parameter of that name, or null.
  The handler awaits \<open>exchangeCodeForSession\<close> with no \<open>try\<close> around it: when the
  promise resolves its value is ignored and the handler goes on to the redirect; when it
  rejects, the error leaves the handler and no response is returned. How the provider
  settles the promise is not decided by the handler, so it is an argument. The result is
  the outcome of the handler together with the calls made to the provider.
\<close>

record URL =
  origin :: string
  searchParams :: "(string \<times> string) list"

datatype auth_call = ExchangeCodeForSession string

datatype promise_outcome = Resolved | Rejected string

datatype route_outcome = NextResponse_redirect string | Thrown string

definition searchParams_get :: "(string \<times> string) list \<Rightarrow> string \<Rightarrow> string option" where
  "searchParams_get ps name = map_of ps name"

text \<open>\<open>if (code)\<close>: null and the empty string are both falsy.\<close>

definition GET :: "URL \<Rightarrow> promise_outcome \<Rightarrow> route_outcome \<times> auth_call list" where
  "GET requestUrl exchange =
     (let code = searchParams_get (searchParams requestUrl) ''code''
      in (case code of
            None \<Rightarrow> (NextResponse_redirect (origin requestUrl), [])
          | Some c \<Rightarrow>
              if c \<noteq> '''' then
                (case exchange of
                   Rejected e \<Rightarrow> (Thrown e, [ExchangeCodeForSession c])
                 | Resolved \<Rightarrow>
                     (NextResponse_redirect (origin requestUrl), [ExchangeCodeForSession c]))
              else (NextResponse_redirect (origin requestUrl), [])))"

section \<open>Properties of the admin page and the login page\<close>

text \<open>
  Claim C1: for a request to the admin page whose session contains a user, exactly one
  lookup of a profile row by primary key is made, with the id of the session's user; the
  page redirects to \<open>/\<close> when the role of that row is not string-equal to \<open>admin\<close> and
  renders the admin page with the row otherwise. (A lookup that finds no row redirects to
  \<open>/\<close> as well.)
\<close>

theorem Home_with_user:
  "session_user session = Some u \<Longrightarrow>
   snd (Home session d) = [Profile_findUnique (id_User u)]
   \<and> fst (Home session d) =
       (case public_profile d (id_User u) of
          None \<Rightarrow> Redirect ''/''
        | Some r \<Rightarrow>
            if Role_label r \<noteq> ''admin'' then Redirect ''/''
            else Admin_page \<lparr>id_Profile = id_User u, role = r\<rparr>)"
  by (simp add: Home_def findUnique_def split: option.splits)

theorem Home_with_user_witness:
  "session_user (Some \<lparr>user = Some \<lparr>id_User = 7\<rparr>\<rparr>) = Some \<lparr>id_User = 7\<rparr>
   \<and> Home (Some \<lparr>user = Some \<lparr>id_User = 7\<rparr>\<rparr>)
        \<lparr>auth_users = {7, 8}, public_profile = [7 \<mapsto> Role_admin, 8 \<mapsto> Role_user],
         public_note = Map.empty\<rparr>
      = (Admin_page \<lparr>id_Profile = 7, role = Role_admin\<rparr>, [Profile_findUnique 7])
   \<and> Home (Some \<lparr>user = Some \<lparr>id_User = 8\<rparr>\<rparr>)
        \<lparr>auth_users = {7, 8}, public_profile = [7 \<mapsto> Role_admin, 8 \<mapsto> Role_user],
         public_note = Map.empty\<rparr>
      = (Redirect ''/'', [Profile_findUnique 8])"
  using Home_with_user [of "Some \<lparr>user = Some \<lparr>id_User = 7\<rparr>\<rparr>" "\<lparr>id_User = 7\<rparr>"
          "\<lparr>auth_users = {7, 8}, public_profile = [7 \<mapsto> Role_admin, 8 \<mapsto> Role_user],
            public_note = Map.empty\<rparr>"]
        Home_with_user [of "Some \<lparr>user = Some \<lparr>id_User = 8\<rparr>\<rparr>" "\<lparr>id_User = 8\<rparr>"
          "\<lparr>auth_users = {7, 8}, public_profile = [7 \<mapsto> Role_admin, 8 \<mapsto> Role_user],
            public_note = Map.empty\<rparr>"]
  by (simp add: session_user_def prod_eq_iff)

text \<open>
  Claim C2: a request to the admin page whose session lookup yields no user is redirected
  to \<open>/login\<close>, and no profile row is queried.
\<close>

theorem Home_no_user_redirects_to_login:
  "session_user session = None \<Longrightarrow> Home session d = (Redirect ''/login'', [])"
  by (simp add: Home_def)

theorem Home_no_user_redirects_to_login_witness:
  "session_user (Some \<lparr>user = None\<rparr>) = None
   \<and> Home (Some \<lparr>user = None\<rparr>) empty_db = (Redirect ''/login'', [])
   \<and> session_user None = None
   \<and> Home None empty_db = (Redirect ''/login'', [])"
  using Home_no_user_redirects_to_login [of "Some \<lparr>user = None\<rparr>" empty_db]
        Home_no_user_redirects_to_login [of None empty_db]
  by (simp add: session_user_def)

text \<open>
  Claim C8: for a request to the admin page with a session user whose id has no profile
  row, the lookup gives null, the comparison of the optional role is still defined, and
  the page redirects to \<open>/\<close>.
\<close>

theorem Home_missing_profile:
  "session_user session = Some u \<Longrightarrow> public_profile d (id_User u) = None \<Longrightarrow>
   findUnique d (id_User u) = None
   \<and> Home session d = (Redirect ''/'', [Profile_findUnique (id_User u)])"
  by (simp add: Home_def findUnique_def)

theorem Home_missing_profile_witness:
  "session_user (Some \<lparr>user = Some \<lparr>id_User = 7\<rparr>\<rparr>) = Some \<lparr>id_User = 7\<rparr>
   \<and> public_profile empty_db 7 = None
   \<and> Home (Some \<lparr>user = Some \<lparr>id_User = 7\<rparr>\<rparr>) empty_db
      = (Redirect ''/'', [Profile_findUnique 7])"
  using Home_missing_profile [of "Some \<lparr>user = Some \<lparr>id_User = 7\<rparr>\<rparr>" "\<lparr>id_User = 7\<rparr>" empty_db]
  by (simp add: session_user_def empty_db_def)

text \<open>
  Claim C10: the login page redirects to \<open>/\<close> for every request whose session contains a
  user, and renders the login form exactly when no session user is present.
\<close>

theorem LoginPage_outcome:
  "(session_user session \<noteq> None \<longrightarrow> LoginPage session = Redirect ''/'')
   \<and> (LoginPage session = Login_page \<longleftrightarrow> session_user session = None)"
  by (auto simp: LoginPage_def split: option.splits)

theorem LoginPage_outcome_witness:
  "session_user (Some \<lparr>user = Some \<lparr>id_User = 7\<rparr>\<rparr>) \<noteq> None
   \<and> LoginPage (Some \<lparr>user = Some \<lparr>id_User = 7\<rparr>\<rparr>) = Redirect ''/''
   \<and> LoginPage None = Login_page"
  using LoginPage_outcome [of "Some \<lparr>user = Some \<lparr>id_User = 7\<rparr>\<rparr>"] LoginPage_outcome [of None]
  by (simp add: session_user_def)

section \<open>Properties of the triggers\<close>

lemma step_keeps_sync:
  "dom (public_profile d) = auth_users d \<Longrightarrow>
   dom (public_profile (step d x)) = auth_users (step d x)"
  by (cases x)
     (auto simp: insert_auth_users_def handle_new_user_def insert_public_profile_def
        delete_public_profile_def handle_user_delete_def delete_auth_users_def
        split: option.splits if_splits)

lemma foldl_step_keeps_sync:
  "dom (public_profile d) = auth_users d \<Longrightarrow>
   dom (public_profile (foldl step d ops)) = auth_users (foldl step d ops)"
  by (induction ops arbitrary: d) (simp_all add: step_keeps_sync)

text \<open>
  Claim C3: with the two triggers installed, in every database state reached from the
  empty one by user-insert and profile-delete steps the ids of the profile table are the
  ids of the provider's users table.
\<close>

theorem profile_ids_eq_user_ids:
  "dom (public_profile (run ops empty_db)) = auth_users (run ops empty_db)"
  unfolding run_def by (rule foldl_step_keeps_sync) (simp add: empty_db_def)

theorem profile_ids_eq_user_ids_witness:
  "dom (public_profile (run [User_insert 1, User_insert 2, User_insert 1, Profile_delete 1,
          Profile_delete 3] empty_db)) = {2}
   \<and> auth_users (run [User_insert 1, User_insert 2, User_insert 1, Profile_delete 1,
          Profile_delete 3] empty_db) = {2}"
  using profile_ids_eq_user_ids
          [of "[User_insert 1, User_insert 2, User_insert 1, Profile_delete 1, Profile_delete 3]"]
  by (simp add: run_def insert_auth_users_def handle_new_user_def insert_public_profile_def
        delete_public_profile_def handle_user_delete_def delete_auth_users_def empty_db_def)

text \<open>
  Claim C4, as the spec states it, fails in its second half: deleting the user row does
  not delete the profile row. After the sign-up of user 7, the statement
  \<open>delete from auth.users where id = 7\<close> removes the user row and leaves the profile row.
\<close>

theorem user_delete_keeps_profile_counterexample:
  "7 \<notin> auth_users (delete_auth_users 7 (run [User_insert 7] empty_db))
   \<and> public_profile (delete_auth_users 7 (run [User_insert 7] empty_db)) 7 = Some Role_user"
  by (simp add: run_def insert_auth_users_def handle_new_user_def insert_public_profile_def
        delete_auth_users_def empty_db_def)

text \<open>
  Claim C4, amended: the trigger functions insert a shadow profile row when a row is
  created in the provider's users table, and delete the user row from the provider's
  users table when its profile row is deleted.
\<close>

theorem triggers_insert_and_delete:
  "(insert_auth_users i d = Inr d' \<longrightarrow> i \<in> auth_users d' \<and> public_profile d' i \<noteq> None)
   \<and> (public_profile d i \<noteq> None \<longrightarrow>
        public_profile (delete_public_profile i d) i = None
        \<and> i \<notin> auth_users (delete_public_profile i d))"
  by (auto simp: insert_auth_users_def handle_new_user_def insert_public_profile_def
        delete_public_profile_def handle_user_delete_def delete_auth_users_def
        split: if_splits)

theorem triggers_insert_and_delete_witness:
  "insert_auth_users 7 empty_db
     = Inr \<lparr>auth_users = {7}, public_profile = [7 \<mapsto> Role_user], public_note = Map.empty\<rparr>
   \<and> 7 \<in> auth_users \<lparr>auth_users = {7}, public_profile = [7 \<mapsto> Role_user], public_note = Map.empty\<rparr>
   \<and> public_profile \<lparr>auth_users = {7}, public_profile = [7 \<mapsto> Role_user], public_note = Map.empty\<rparr> 7 \<noteq> None
   \<and> public_profile (delete_public_profile 7
        \<lparr>auth_users = {7}, public_profile = [7 \<mapsto> Role_user], public_note = Map.empty\<rparr>) 7 = None
   \<and> 7 \<notin> auth_users (delete_public_profile 7
        \<lparr>auth_users = {7}, public_profile = [7 \<mapsto> Role_user], public_note = Map.empty\<rparr>)"
  using triggers_insert_and_delete [of 7 empty_db
          "\<lparr>auth_users = {7}, public_profile = [7 \<mapsto> Role_user], public_note = Map.empty\<rparr>"]
        triggers_insert_and_delete [of 7
          "\<lparr>auth_users = {7}, public_profile = [7 \<mapsto> Role_user], public_note = Map.empty\<rparr>"
          empty_db]
  by (simp add: insert_auth_users_def handle_new_user_def insert_public_profile_def empty_db_def)

text \<open>
  Claim C5: deleting a profile row deletes exactly the note rows whose \<open>userId\<close> is the id
  of the deleted profile; every other profile row and every other note row is unchanged.
\<close>

theorem delete_profile_cascade:
  "public_profile d i = Some r \<Longrightarrow>
   public_profile (delete_public_profile i d) = (public_profile d)(i := None)
   \<and> (\<forall>n. public_note (delete_public_profile i d) n =
         (case public_note d n of
            None \<Rightarrow> None
          | Some x \<Rightarrow> if userId x = i then None else Some x))"
  by (simp add: delete_public_profile_def handle_user_delete_def delete_auth_users_def
        cascade_note_def)

theorem delete_profile_cascade_witness:
  "public_profile
     \<lparr>auth_users = {1, 2}, public_profile = [1 \<mapsto> Role_user, 2 \<mapsto> Role_admin],
      public_note = [10 \<mapsto> \<lparr>text_note = ''a'', userId = 1\<rparr>,
                     11 \<mapsto> \<lparr>text_note = ''b'', userId = 2\<rparr>]\<rparr> 1 = Some Role_user
   \<and> public_profile (delete_public_profile 1
        \<lparr>auth_users = {1, 2}, public_profile = [1 \<mapsto> Role_user, 2 \<mapsto> Role_admin],
         public_note = [10 \<mapsto> \<lparr>text_note = ''a'', userId = 1\<rparr>,
                        11 \<mapsto> \<lparr>text_note = ''b'', userId = 2\<rparr>]\<rparr>) 2 = Some Role_admin
   \<and> public_note (delete_public_profile 1
        \<lparr>auth_users = {1, 2}, public_profile = [1 \<mapsto> Role_user, 2 \<mapsto> Role_admin],
         public_note = [10 \<mapsto> \<lparr>text_note = ''a'', userId = 1\<rparr>,
                        11 \<mapsto> \<lparr>text_note = ''b'', userId = 2\<rparr>]\<rparr>) 10 = None
   \<and> public_note (delete_public_profile 1
        \<lparr>auth_users = {1, 2}, public_profile = [1 \<mapsto> Role_user, 2 \<mapsto> Role_admin],
         public_note = [10 \<mapsto> \<lparr>text_note = ''a'', userId = 1\<rparr>,
                        11 \<mapsto> \<lparr>text_note = ''b'', userId = 2\<rparr>]\<rparr>) 11
       = Some \<lparr>text_note = ''b'', userId = 2\<rparr>"
  using delete_profile_cascade [of
          "\<lparr>auth_users = {1, 2}, public_profile = [1 \<mapsto> Role_user, 2 \<mapsto> Role_admin],
            public_note = [10 \<mapsto> \<lparr>text_note = ''a'', userId = 1\<rparr>,
                           11 \<mapsto> \<lparr>text_note = ''b'', userId = 2\<rparr>]\<rparr>" 1 Role_user]
  by simp

text \<open>
  Claim C9: every profile row created by \<open>handle_new_user\<close> has the default role \<open>user\<close>,
  so right after a sign-up the admin page redirects that user to \<open>/\<close>.
\<close>

theorem new_profile_has_role_user:
  "insert_auth_users i d = Inr d' \<Longrightarrow>
   public_profile d' i = Some Role_user
   \<and> (session_user session = Some \<lparr>id_User = i\<rparr> \<longrightarrow> fst (Home session d') = Redirect ''/'')"
  by (auto simp: insert_auth_users_def handle_new_user_def insert_public_profile_def
        Home_def findUnique_def split: if_splits)

theorem new_profile_has_role_user_witness:
  "insert_auth_users 7 empty_db
     = Inr \<lparr>auth_users = {7}, public_profile = [7 \<mapsto> Role_user], public_note = Map.empty\<rparr>
   \<and> session_user (Some \<lparr>user = Some \<lparr>id_User = 7\<rparr>\<rparr>) = Some \<lparr>id_User = 7\<rparr>
   \<and> fst (Home (Some \<lparr>user = Some \<lparr>id_User = 7\<rparr>\<rparr>)
        \<lparr>auth_users = {7}, public_profile = [7 \<mapsto> Role_user], public_note = Map.empty\<rparr>)
      = Redirect ''/''"
  using new_profile_has_role_user [of 7 empty_db
          "\<lparr>auth_users = {7}, public_profile = [7 \<mapsto> Role_user], public_note = Map.empty\<rparr>"
          "Some \<lparr>user = Some \<lparr>id_User = 7\<rparr>\<rparr>"]
  by (simp add: insert_auth_users_def handle_new_user_def insert_public_profile_def
        empty_db_def session_user_def)

section \<open>Properties of the seeding script\<close>

text \<open>The script succeeds on every catalog; this is the catalog it leaves.\<close>

lemma main_result:
  "main c = Inr (c\<lparr>pg_functions := (pg_functions c)
        (''public.handle_new_user'' \<mapsto>
           \<lparr>body = Insert_public_profile_new_id, security_definer = True\<rparr>,
         ''public.handle_user_delete'' \<mapsto>
           \<lparr>body = Delete_auth_users_old_id, security_definer = True\<rparr>),
       pg_triggers := (pg_triggers c)
        ((Rel_auth_users, ''on_auth_user_created'') \<mapsto>
           \<lparr>event = After_insert, for_each_row = True,
            procedure = ''public.handle_new_user''\<rparr>,
         (Rel_public_profile, ''on_profile_user_deleted'') \<mapsto>
           \<lparr>event = After_delete, for_each_row = True,
            procedure = ''public.handle_user_delete''\<rparr>)\<rparr>)"
  by (simp add: main_def create_or_replace_function_def create_or_replace_trigger_def)

lemma main_succeeds: "\<exists>c'. main c = Inr c'"
  by (simp add: main_result)

text \<open>
  Claim C6: running the four create-or-replace statements again on a catalog that
  already ran them succeeds and leaves the installed functions and triggers unchanged.
\<close>

theorem main_idempotent:
  "main c = Inr c' \<Longrightarrow> main c' = Inr c'"
  unfolding main_result by (auto simp: fun_upd_twist)

theorem main_idempotent_witness:
  "main empty_catalog = Inr
     \<lparr>pg_functions =
        [''public.handle_new_user'' \<mapsto>
           \<lparr>body = Insert_public_profile_new_id, security_definer = True\<rparr>,
         ''public.handle_user_delete'' \<mapsto>
           \<lparr>body = Delete_auth_users_old_id, security_definer = True\<rparr>],
      pg_triggers =
        [(Rel_auth_users, ''on_auth_user_created'') \<mapsto>
           \<lparr>event = After_insert, for_each_row = True,
            procedure = ''public.handle_new_user''\<rparr>,
         (Rel_public_profile, ''on_profile_user_deleted'') \<mapsto>
           \<lparr>event = After_delete, for_each_row = True,
            procedure = ''public.handle_user_delete''\<rparr>]\<rparr>
   \<and> main
     \<lparr>pg_functions =
        [''public.handle_new_user'' \<mapsto>
           \<lparr>body = Insert_public_profile_new_id, security_definer = True\<rparr>,
         ''public.handle_user_delete'' \<mapsto>
           \<lparr>body = Delete_auth_users_old_id, security_definer = True\<rparr>],
      pg_triggers =
        [(Rel_auth_users, ''on_auth_user_created'') \<mapsto>
           \<lparr>event = After_insert, for_each_row = True,
            procedure = ''public.handle_new_user''\<rparr>,
         (Rel_public_profile, ''on_profile_user_deleted'') \<mapsto>
           \<lparr>event = After_delete, for_each_row = True,
            procedure = ''public.handle_user_delete''\<rparr>]\<rparr>
     = Inr
     \<lparr>pg_functions =
        [''public.handle_new_user'' \<mapsto>
           \<lparr>body = Insert_public_profile_new_id, security_definer = True\<rparr>,
         ''public.handle_user_delete'' \<mapsto>
           \<lparr>body = Delete_auth_users_old_id, security_definer = True\<rparr>],
      pg_triggers =
        [(Rel_auth_users, ''on_auth_user_created'') \<mapsto>
           \<lparr>event = After_insert, for_each_row = True,
            procedure = ''public.handle_new_user''\<rparr>,
         (Rel_public_profile, ''on_profile_user_deleted'') \<mapsto>
           \<lparr>event = After_delete, for_each_row = True,
            procedure = ''public.handle_user_delete''\<rparr>]\<rparr>"
  using main_idempotent [of empty_catalog
     "\<lparr>pg_functions =
        [''public.handle_new_user'' \<mapsto>
           \<lparr>body = Insert_public_profile_new_id, security_definer = True\<rparr>,
         ''public.handle_user_delete'' \<mapsto>
           \<lparr>body = Delete_auth_users_old_id, security_definer = True\<rparr>],
      pg_triggers =
        [(Rel_auth_users, ''on_auth_user_created'') \<mapsto>
           \<lparr>event = After_insert, for_each_row = True,
            procedure = ''public.handle_new_user''\<rparr>,
         (Rel_public_profile, ''on_profile_user_deleted'') \<mapsto>
           \<lparr>event = After_delete, for_each_row = True,
            procedure = ''public.handle_user_delete''\<rparr>]\<rparr>"]
  by (simp add: main_def create_or_replace_function_def create_or_replace_trigger_def
        empty_catalog_def)

section \<open>Properties of the code exchange route\<close>

text \<open>
  Claim C7, as the spec states it, fails in both halves. The request
  \<open>/auth/callback?code=\<close> carries a \<open>code\<close> query parameter with an empty value, which
  \<open>if (code)\<close> takes as false, so no exchange is made. The request
  \<open>/auth/callback?code=abc\<close> whose exchange the provider rejects gets no redirect: the
  error leaves the handler.
\<close>

theorem GET_empty_code_counterexample:
  "''code'' \<in> fst ` set (searchParams
      \<lparr>origin = ''https://example.com'', searchParams = [(''code'', '''')]\<rparr>)
   \<and> snd (GET \<lparr>origin = ''https://example.com'', searchParams = [(''code'', '''')]\<rparr>
          Resolved) = []
   \<and> GET \<lparr>origin = ''https://example.com'', searchParams = [(''code'', ''abc'')]\<rparr>
          (Rejected ''invalid request'')
      = (Thrown ''invalid request'', [ExchangeCodeForSession ''abc''])
   \<and> fst (GET \<lparr>origin = ''https://example.com'', searchParams = [(''code'', ''abc'')]\<rparr>
          (Rejected ''invalid request''))
      \<noteq> NextResponse_redirect ''https://example.com''"
  by (simp add: GET_def searchParams_get_def)

text \<open>
  Claim C7, amended: for every GET request to the callback route, the exchange of the
  code for a session is attempted exactly when the first \<open>code\<close> query parameter of the
  request is present and not empty, with the value of that parameter, and at most once.
  The response is a redirect to the origin of the request URL whenever no exchange is
  attempted or the exchange resolves; when the exchange rejects, its error leaves the
  handler and no redirect is returned.
\<close>

theorem GET_redirects_and_exchanges:
  "snd (GET requestUrl exchange) =
       (case map_of (searchParams requestUrl) ''code'' of
          None \<Rightarrow> []
        | Some c \<Rightarrow> if c = '''' then [] else [ExchangeCodeForSession c])
   \<and> (snd (GET requestUrl exchange) = [] \<or> exchange = Resolved \<longrightarrow>
        fst (GET requestUrl exchange) = NextResponse_redirect (origin requestUrl))
   \<and> (snd (GET requestUrl exchange) \<noteq> [] \<and> exchange = Rejected e \<longrightarrow>
        fst (GET requestUrl exchange) = Thrown e)"
  by (auto simp: GET_def searchParams_get_def Let_def
        split: option.splits promise_outcome.splits)

theorem GET_redirects_and_exchanges_witness:
  "GET \<lparr>origin = ''https://example.com'', searchParams = [(''next'', ''x''), (''code'', ''abc'')]\<rparr>
       Resolved
     = (NextResponse_redirect ''https://example.com'', [ExchangeCodeForSession ''abc''])
   \<and> GET \<lparr>origin = ''https://example.com'', searchParams = [(''next'', ''x'')]\<rparr>
       (Rejected ''e'')
     = (NextResponse_redirect ''https://example.com'', [])
   \<and> GET \<lparr>origin = ''https://example.com'', searchParams = [(''code'', ''abc'')]\<rparr>
       (Rejected ''e'')
     = (Thrown ''e'', [ExchangeCodeForSession ''abc''])"
  using GET_redirects_and_exchanges
          [of "\<lparr>origin = ''https://example.com'',
                searchParams = [(''next'', ''x''), (''code'', ''abc'')]\<rparr>" Resolved "''e''"]
        GET_redirects_and_exchanges
          [of "\<lparr>origin = ''https://example.com'', searchParams = [(''next'', ''x'')]\<rparr>"
              "Rejected ''e''" "''e''"]
        GET_redirects_and_exchanges
          [of "\<lparr>origin = ''https://example.com'', searchParams = [(''code'', ''abc'')]\<rparr>"
              "Rejected ''e''" "''e''"]
  by (simp add: prod_eq_iff)

end
